theory Spec2Isabelle
  imports Complex_Main "HOL-Library.Sublist" "HOL-Library.Word"
begin

section \<open>Values of the host language\<close>

text \<open>
  The request executor is generic in the body it sends and in the value it returns
  (\<^verbatim>\<open>body?: unknown\<close>, \<^verbatim>\<open>Promise<T>\<close>), so the model needs the values of
  the host language. Numbers are never computed with here; only their truthiness is
  read, so a finite number is kept as the rational it denotes (both zeros are \<open>Finite 0\<close>).
\<close>

datatype jsnum = NaN | Infinity bool | Finite rat

datatype jsval =
    JUndefined
  | JNull
  | JBool bool
  | JNum jsnum
  | JBigInt int
  | JStr string
  | JArr "jsval list"
  | JObj "(string \<times> jsval) list"

text \<open>
  The conversion to a boolean that \<^verbatim>\<open>cond ? a : b\<close> applies to its condition:
  \<^verbatim>\<open>undefined\<close>, \<^verbatim>\<open>null\<close>, \<^verbatim>\<open>false\<close>, both zeros, \<^verbatim>\<open>NaN\<close>,
  \<^verbatim>\<open>0n\<close> and the empty string are falsy, every other value is truthy.
\<close>

fun truthy :: "jsval \<Rightarrow> bool" where
  "truthy JUndefined = False"
| "truthy JNull = False"
| "truthy (JBool b) = b"
| "truthy (JNum NaN) = False"
| "truthy (JNum (Infinity s)) = True"
| "truthy (JNum (Finite r)) = (r \<noteq> 0)"
| "truthy (JBigInt i) = (i \<noteq> 0)"
| "truthy (JStr s) = (s \<noteq> [])"
| "truthy (JArr vs) = True"
| "truthy (JObj kvs) = True"

text \<open>
  An exception raised by the platform (by \<^verbatim>\<open>fetch\<close>, \<^verbatim>\<open>res.text()\<close>,
  \<^verbatim>\<open>res.json()\<close>, \<^verbatim>\<open>JSON.stringify\<close> or \<^verbatim>\<open>JSON.parse\<close>): an instance of
  \<^verbatim>\<open>Error\<close> with its message, or some other thrown value.
\<close>

datatype exn = Error string | NotAnError

section \<open>The request executor (mock-app/api/http.ts)\<close>

datatype HttpMethod = GET | POST | PATCH | PUT | DELETE

datatype RequestCache = CacheDefault | ForceCache | NoCache | NoStore | OnlyIfCached | Reload

text \<open>
  \<^verbatim>\<open>RequestOptions\<close>: every field is optional. A field that is absent and a field
  that is \<^verbatim>\<open>undefined\<close> read the same in the destructuring with defaults, so
  \<open>None\<close> (for \<open>body\<close>: \<open>JUndefined\<close>) stands for both. The field
  \<^verbatim>\<open>method\<close> is \<open>method_opt\<close> here, its name being reserved.
\<close>

record RequestOptions =
  method_opt :: "HttpMethod option"
  body :: jsval
  headers :: "(string \<rightharpoonup> string) option"
  cache :: "RequestCache option"

text \<open>The two arguments of the call of \<^verbatim>\<open>fetch\<close>: the URL and the init object.\<close>

record request =
  req_url :: string
  req_method :: HttpMethod
  req_cache :: RequestCache
  req_headers :: "string \<rightharpoonup> string"
  req_body :: "string option"

text \<open>
  One exchange as the executor sees it: \<^verbatim>\<open>await fetch(...)\<close> followed at once by
  \<^verbatim>\<open>await res.text()\<close>. Of the response the code reads \<^verbatim>\<open>res.ok\<close>,
  \<^verbatim>\<open>res.status\<close> and the text. The platform sets \<^verbatim>\<open>ok\<close> for the statuses
  200 to 299; the code reads the flag, and so does the model.
\<close>

record response =
  res_ok :: bool
  res_status :: nat
  res_text :: string

text \<open>
  The platform functions the executor calls are parameters of the model:
  \<^verbatim>\<open>JSON.stringify\<close> (which may throw), \<^verbatim>\<open>JSON.parse\<close> (which throws on
  text that is not JSON) and the exchange (\<open>Inl\<close> when \<^verbatim>\<open>fetch\<close> or
  \<^verbatim>\<open>res.text()\<close> rejects).
\<close>

record platform =
  JSON_stringify :: "jsval \<Rightarrow> exn + string"
  JSON_parse :: "string \<Rightarrow> exn + jsval"
  fetch :: "request \<Rightarrow> exn + response"

text \<open>
  The failures of \<^verbatim>\<open>http\<close>: the \<^verbatim>\<open>ApiError\<close> of the module, with the fields
  its constructor sets, or an exception of the platform passing through unchanged.
\<close>

datatype http_failure =
    ApiError (message: string) (status: nat) (bodyText: string)
  | Rejected exn

fun method_name :: "HttpMethod \<Rightarrow> string" where
  "method_name GET = ''GET''"
| "method_name POST = ''POST''"
| "method_name PATCH = ''PATCH''"
| "method_name PUT = ''PUT''"
| "method_name DELETE = ''DELETE''"

text \<open>The decimal numeral a template literal prints for a natural number.\<close>

definition digit_char :: "nat \<Rightarrow> char" where
  "digit_char d = char_of (48 + d)"

function show_nat :: "nat \<Rightarrow> string" where
  "show_nat n = (if n < 10 then [digit_char n] else show_nat (n div 10) @ [digit_char (n mod 10)])"
  by pat_completeness auto
termination
  by (relation "measure (\<lambda>n. n)") auto

declare show_nat.simps [simp del]

text \<open>
  The init object of lines 25 to 33. The JSON content type is put first and the
  caller's headers are spread over it, so a caller's entry under the same key replaces
  it. Both the content type and the serialised body depend on the truthiness of
  \<open>body\<close>. Only \<^verbatim>\<open>JSON.stringify\<close> can throw here.
\<close>

definition fetch_init :: "platform \<Rightarrow> string \<Rightarrow> RequestOptions \<Rightarrow> exn + request" where
  "fetch_init P url opts =
     (let method' = (case method_opt opts of None \<Rightarrow> GET | Some m \<Rightarrow> m);
          body' = body opts;
          headers' = (case headers opts of None \<Rightarrow> Map.empty | Some h \<Rightarrow> h);
          cache' = (case cache opts of None \<Rightarrow> NoStore | Some c \<Rightarrow> c);
          hs = (if truthy body' then [''Content-Type'' \<mapsto> ''application/json''] else Map.empty)
                 ++ headers'
      in if truthy body'
         then (case JSON_stringify P body' of
                 Inl e \<Rightarrow> Inl e
               | Inr s \<Rightarrow> Inr \<lparr>req_url = url, req_method = method', req_cache = cache',
                               req_headers = hs, req_body = Some s\<rparr>)
         else Inr \<lparr>req_url = url, req_method = method', req_cache = cache',
                    req_headers = hs, req_body = None\<rparr>)"

definition http :: "platform \<Rightarrow> string \<Rightarrow> RequestOptions \<Rightarrow> http_failure + jsval" where
  "http P url opts =
     (case fetch_init P url opts of
        Inl e \<Rightarrow> Inl (Rejected e)
      | Inr rq \<Rightarrow>
          (case fetch P rq of
             Inl e \<Rightarrow> Inl (Rejected e)
           | Inr res \<Rightarrow>
               (let text = res_text res
                in if \<not> res_ok res
                   then Inl (ApiError (''HTTP '' @ show_nat (res_status res) @ '' for ''
                                         @ method_name (req_method rq) @ '' '' @ url)
                               (res_status res) text)
                   else if text = [] then Inr JUndefined
                   else (case JSON_parse P text of
                           Inr v \<Rightarrow> Inr v
                         | Inl _ \<Rightarrow> Inr (JStr text)))))"

text \<open>\<^verbatim>\<open>opts = {}\<close>, the default of the second parameter.\<close>

definition no_opts :: RequestOptions where
  "no_opts = \<lparr>method_opt = None, body = JUndefined, headers = None, cache = None\<rparr>"

text \<open>
  Lines 35 to 52 on their own: what \<^verbatim>\<open>http\<close> makes of the outcome of the exchange it
  awaited, for the method and the URL of the call.
\<close>

definition http_outcome :: "platform \<Rightarrow> HttpMethod \<Rightarrow> string \<Rightarrow> exn + response \<Rightarrow> http_failure + jsval" where
  "http_outcome P m url r =
     (case r of
        Inl e \<Rightarrow> Inl (Rejected e)
      | Inr res \<Rightarrow>
          (let text = res_text res
           in if \<not> res_ok res
              then Inl (ApiError (''HTTP '' @ show_nat (res_status res) @ '' for ''
                                    @ method_name m @ '' '' @ url)
                          (res_status res) text)
              else if text = [] then Inr JUndefined
              else (case JSON_parse P text of
                      Inr v \<Rightarrow> Inr v
                    | Inl _ \<Rightarrow> Inr (JStr text))))"

section \<open>The resource client (TasksAPI)\<close>

definition BASE :: string where
  "BASE = ''http://localhost:3001/tasks''"

text \<open>
  The parameters \<^verbatim>\<open>payload\<close> and \<^verbatim>\<open>updates\<close> are typed as objects (with the fields
  title, priority and status; with some of priority and status). At run time they are
  whatever value the caller holds, and the client hands that value to \<^verbatim>\<open>http\<close>
  as the body, so they are values here. The id goes into the URL as it is.
\<close>

definition TasksAPI_list :: "platform \<Rightarrow> http_failure + jsval" where
  "TasksAPI_list P = http P BASE no_opts"

definition TasksAPI_create :: "platform \<Rightarrow> jsval \<Rightarrow> http_failure + jsval" where
  "TasksAPI_create P payload =
     http P BASE \<lparr>method_opt = Some POST, body = payload, headers = None, cache = None\<rparr>"

definition TasksAPI_update :: "platform \<Rightarrow> string \<Rightarrow> jsval \<Rightarrow> http_failure + jsval" where
  "TasksAPI_update P i updates =
     http P (BASE @ ''/'' @ i)
       \<lparr>method_opt = Some PATCH, body = updates, headers = None, cache = None\<rparr>"

definition TasksAPI_remove :: "platform \<Rightarrow> string \<Rightarrow> http_failure + jsval" where
  "TasksAPI_remove P i =
     http P (BASE @ ''/'' @ i) \<lparr>method_opt = Some DELETE, body = JUndefined, headers = None, cache = None\<rparr>"

text \<open>
  "The changed subset" of an updates object, in the words of the description of
  \<open>update\<close>: the fields of \<open>updates\<close> whose value differs from the one the task holds.
\<close>

definition changed_subset :: "(string \<times> jsval) list \<Rightarrow> (string \<times> jsval) list \<Rightarrow> (string \<times> jsval) list" where
  "changed_subset task updates = filter (\<lambda>kv. map_of task (fst kv) \<noteq> Some (snd kv)) updates"

section \<open>The view (TasksPage)\<close>

subsection \<open>Strings\<close>

text \<open>
  The view trims, lowers and searches strings, so the strings of its data are what
  they are in the host language: sequences of 16-bit code units. \<open>ascii\<close> writes a
  literal of the code. The texts of toasts and errors are only shown and stay
  \<^typ>\<open>string\<close>.
\<close>

type_synonym jstring = "16 word list"

definition ascii :: "string \<Rightarrow> jstring" where
  "ascii s = map (\<lambda>c. of_nat (of_char c)) s"

text \<open>
  \<^verbatim>\<open>String.prototype.trim\<close> strips white space and line terminators from both
  ends: tab, line feed, vertical tab, form feed, carriage return, space, no-break
  space, the space separators U+1680, U+2000 to U+200A, U+202F, U+205F and U+3000, the
  line and paragraph separators U+2028 and U+2029, and U+FEFF.
\<close>

definition is_ws :: "16 word \<Rightarrow> bool" where
  "is_ws c = (c \<in> set [0x0009, 0x000A, 0x000B, 0x000C, 0x000D, 0x0020, 0x00A0, 0x1680,
                        0x2000, 0x2001, 0x2002, 0x2003, 0x2004, 0x2005, 0x2006, 0x2007,
                        0x2008, 0x2009, 0x200A, 0x2028, 0x2029, 0x202F, 0x205F, 0x3000,
                        0xFEFF])"

definition trim :: "jstring \<Rightarrow> jstring" where
  "trim s = rev (dropWhile is_ws (rev (dropWhile is_ws s)))"

text \<open>
  \<^verbatim>\<open>String.prototype.toLowerCase\<close> applies the case mapping of Unicode, which is a
  parameter \<open>lower\<close> of the model; in the empty string it has nothing to map.
\<close>

definition toLowerCase :: "(jstring \<Rightarrow> jstring) \<Rightarrow> jstring \<Rightarrow> jstring" where
  "toLowerCase lower s = (if s = [] then [] else lower s)"

text \<open>\<^verbatim>\<open>s.includes(q)\<close>: \<open>q\<close> starts at some position of \<open>s\<close>.\<close>

fun includes_str :: "jstring \<Rightarrow> jstring \<Rightarrow> bool" where
  "includes_str [] q = (q = [])"
| "includes_str (c # cs) q = (prefix q (c # cs) \<or> includes_str cs q)"

subsection \<open>Tasks and drafts\<close>

record Task =
  task_id :: jstring
  task_title :: jstring
  task_priority :: jstring
  task_status :: jstring

text \<open>
  What the code reads of a value it finds in \<^verbatim>\<open>drafts\<close>: its properties
  \<^verbatim>\<open>priority\<close> and \<^verbatim>\<open>status\<close>, \<open>None\<close> for \<^verbatim>\<open>undefined\<close>.
\<close>

record draft =
  draft_priority :: "jstring option"
  draft_status :: "jstring option"

definition no_props :: draft where
  "no_props = \<lparr>draft_priority = None, draft_status = None\<rparr>"

definition draft_of_task :: "Task \<Rightarrow> draft" where
  "draft_of_task t = \<lparr>draft_priority = Some (task_priority t), draft_status = Some (task_status t)\<rparr>"

text \<open>
  \<^verbatim>\<open>drafts\<close> is a plain object used as a dictionary: its own properties, and its
  prototype, which is \<^verbatim>\<open>Object.prototype\<close> (\<open>None\<close>) unless an assignment to the key
  \<^verbatim>\<open>__proto__\<close> has installed a draft object there.
\<close>

record drafts_obj =
  own_props :: "jstring \<rightharpoonup> draft"
  proto_obj :: "draft option"

definition empty_obj :: drafts_obj where
  "empty_obj = \<lparr>own_props = Map.empty, proto_obj = None\<rparr>"

definition proto_key :: jstring where
  "proto_key = ascii ''__proto__''"

text \<open>The other properties of \<^verbatim>\<open>Object.prototype\<close>, all of them functions.\<close>

definition object_prototype_names :: "jstring list" where
  "object_prototype_names = map ascii
     [''constructor'', ''__defineGetter__'', ''__defineSetter__'', ''hasOwnProperty'',
      ''__lookupGetter__'', ''__lookupSetter__'', ''isPrototypeOf'', ''propertyIsEnumerable'',
      ''toString'', ''valueOf'', ''toLocaleString'']"

text \<open>A string property that \<open>k\<close> names in the installed prototype.\<close>

definition inherited_text :: "draft option \<Rightarrow> jstring \<Rightarrow> jstring option" where
  "inherited_text p k =
     (case p of
        None \<Rightarrow> None
      | Some d \<Rightarrow> if k = ascii ''priority'' then draft_priority d
                  else if k = ascii ''status'' then draft_status d
                  else None)"

text \<open>
  \<^verbatim>\<open>drafts[k]\<close>, as far as the code uses it: \<open>None\<close> when the value is falsy
  (\<^verbatim>\<open>undefined\<close> or the empty string), else what \<^verbatim>\<open>.priority\<close> and
  \<^verbatim>\<open>.status\<close> read in it. An own property wins. The key \<^verbatim>\<open>__proto__\<close> reads
  the prototype. Any other key is looked up along the prototypes: a string of the
  installed draft, or a function of \<^verbatim>\<open>Object.prototype\<close>; neither has a priority
  or a status.
\<close>

definition drafts_at :: "drafts_obj \<Rightarrow> jstring \<Rightarrow> draft option" where
  "drafts_at ob k =
     (case own_props ob k of
        Some d \<Rightarrow> Some d
      | None \<Rightarrow>
          if k = proto_key then Some (case proto_obj ob of Some d \<Rightarrow> d | None \<Rightarrow> no_props)
          else (case inherited_text (proto_obj ob) k of
                  Some v \<Rightarrow> if v = [] then None else Some no_props
                | None \<Rightarrow> if k \<in> set object_prototype_names then Some no_props else None))"

text \<open>
  \<^verbatim>\<open>d[k] = v\<close> for an object \<open>v\<close>: the key \<^verbatim>\<open>__proto__\<close>, unless it is an own
  property, runs the setter of \<^verbatim>\<open>Object.prototype\<close>, which replaces the prototype
  and creates no property; every other key becomes an own property.
\<close>

definition assign :: "drafts_obj \<Rightarrow> jstring \<Rightarrow> draft \<Rightarrow> drafts_obj" where
  "assign ob k v =
     (if k = proto_key \<and> own_props ob k = None then ob\<lparr>proto_obj := Some v\<rparr>
      else ob\<lparr>own_props := (own_props ob)(k \<mapsto> v)\<rparr>)"

text \<open>
  \<^verbatim>\<open>{ ...prev, [k]: v }\<close>: a new object with the own properties of \<open>prev\<close> and the
  own property \<open>k\<close> (a computed key defines a property, also for \<^verbatim>\<open>__proto__\<close>);
  its prototype is \<^verbatim>\<open>Object.prototype\<close>.
\<close>

definition spread_with :: "drafts_obj \<Rightarrow> jstring \<Rightarrow> draft \<Rightarrow> drafts_obj" where
  "spread_with prev k v = \<lparr>own_props = (own_props prev)(k \<mapsto> v), proto_obj = None\<rparr>"

subsection \<open>State and handlers\<close>

datatype ToastType = T_success | T_error | T_info


text \<open>The state the component holds in its \<^verbatim>\<open>useState\<close> cells.\<close>

record view =
  tasks :: "Task list"
  drafts :: drafts_obj
  loading :: bool
  err :: string
  toast :: "(ToastType \<times> string) option"
  isAddOpen :: bool
  newTitle :: jstring
  newPriority :: jstring
  newStatus :: jstring
  q :: jstring
  priorityFilter :: jstring
  statusFilter :: jstring
  confirmOpen :: bool
  pendingDeleteId :: "jstring option"

definition initial_view :: view where
  "initial_view = \<lparr>tasks = [], drafts = empty_obj, loading = True, err = [], toast = None,
     isAddOpen = False, newTitle = [], newPriority = ascii ''Low'', newStatus = ascii ''open'',
     q = [], priorityFilter = ascii ''All'', statusFilter = ascii ''All'',
     confirmOpen = False, pendingDeleteId = None\<rparr>"

text \<open>
  The view calls \<^verbatim>\<open>fetch\<close> itself. Of a response it reads \<^verbatim>\<open>ok\<close>,
  \<^verbatim>\<open>status\<close> and, in \<^verbatim>\<open>fetchTasks\<close>, the outcome of \<^verbatim>\<open>res.json()\<close>, taken
  at the type the code declares for it, a list of tasks. Each handler is modelled by
  its net effect on the state, given the outcomes of the exchanges it awaits; the
  requests it sends are not part of the state.
\<close>

record view_response =
  vr_ok :: bool
  vr_status :: nat
  vr_json :: "exn + Task list"

type_synonym outcome = "exn + view_response"

definition showToast :: "ToastType \<Rightarrow> string \<Rightarrow> view \<Rightarrow> view" where
  "showToast ty msg s = s\<lparr>toast := Some (ty, msg)\<rparr>"

text \<open>
  The \<^verbatim>\<open>catch\<close> block the handlers share: the message of an \<^verbatim>\<open>Error\<close>, or
  the handler's fallback text, goes to \<open>err\<close> and to an error toast.
\<close>

definition caught :: "string \<Rightarrow> exn \<Rightarrow> view \<Rightarrow> view" where
  "caught fallback e s =
     (let msg = (case e of Error m \<Rightarrow> m | NotAnError \<Rightarrow> fallback)
      in showToast T_error msg (s\<lparr>err := msg\<rparr>))"

text \<open>The \<^verbatim>\<open>forEach\<close> of lines 76 to 79: one assignment for each task, in order.\<close>

fun drafts_of :: "drafts_obj \<Rightarrow> Task list \<Rightarrow> drafts_obj" where
  "drafts_of d [] = d"
| "drafts_of d (t # ts) = drafts_of (assign d (task_id t) (draft_of_task t)) ts"

definition fetchTasks :: "outcome \<Rightarrow> view \<Rightarrow> view" where
  "fetchTasks r s =
     (let s1 = s\<lparr>loading := True, err := []\<rparr>;
          s2 = (case r of
                  Inl e \<Rightarrow> caught ''Failed to fetch'' e s1
                | Inr res \<Rightarrow>
                    if \<not> vr_ok res
                    then caught ''Failed to fetch'' (Error (''HTTP '' @ show_nat (vr_status res))) s1
                    else (case vr_json res of
                            Inl e \<Rightarrow> caught ''Failed to fetch'' e s1
                          | Inr data \<Rightarrow> s1\<lparr>tasks := data, drafts := drafts_of empty_obj data\<rparr>))
      in s2\<lparr>loading := False\<rparr>)"




definition resetRow :: "jstring \<Rightarrow> view \<Rightarrow> view" where
  "resetRow i s =
     (case find (\<lambda>t. task_id t = i) (tasks s) of
        None \<Rightarrow> s
      | Some current \<Rightarrow>
          showToast T_info ''Changes reset''
            (s\<lparr>drafts := spread_with (drafts s) i (draft_of_task current)\<rparr>))"




text \<open>Lines 224 to 233, as a function of what the memo depends on and of the case mapping.\<close>

definition filteredTasks :: "(jstring \<Rightarrow> jstring) \<Rightarrow> Task list \<Rightarrow> jstring \<Rightarrow> jstring \<Rightarrow> jstring \<Rightarrow> Task list" where
  "filteredTasks lower ts qs pf sf =
     (let query = toLowerCase lower (trim qs)
      in filter (\<lambda>t.
           (let matchesQuery = (if query \<noteq> [] then includes_str (toLowerCase lower (task_title t)) query
                                else True);
                matchesPriority = (if pf = ascii ''All'' then True else task_priority t = pf);
                matchesStatus = (if sf = ascii ''All'' then True else task_status t = sf)
            in matchesQuery \<and> matchesPriority \<and> matchesStatus)) ts)"





text \<open>
  The draft state mirrors the server state: for every task, \<^verbatim>\<open>drafts[t.id]\<close> reads
  the task's own priority and status.
\<close>

definition mirrors :: "view \<Rightarrow> bool" where
  "mirrors s = (\<forall>t \<in> set (tasks s). drafts_at (drafts s) (task_id t) = Some (draft_of_task t))"






section \<open>Two readings of the filter\<close>

text \<open>
  \<open>selected\<close> is the test of a drop-down filter: the entry \<^verbatim>\<open>All\<close> lets every
  value through. \<open>filteredTasks_as_claimed\<close> follows the words "the tasks whose title
  contains the trimmed lowercased query": the title is taken as it is.
  \<open>filteredTasks_case_folded\<close> lowers the title as well before it looks for the query.
  Containment is \<^const>\<open>sublist\<close>: the query occurs as a contiguous run.
\<close>

definition selected :: "jstring \<Rightarrow> jstring \<Rightarrow> bool" where
  "selected flt v = (flt = ascii ''All'' \<or> v = flt)"

definition filteredTasks_as_claimed :: "(jstring \<Rightarrow> jstring) \<Rightarrow> Task list \<Rightarrow> jstring \<Rightarrow> jstring \<Rightarrow> jstring \<Rightarrow> Task list" where
  "filteredTasks_as_claimed lower ts qs pf sf =
     filter (\<lambda>t. sublist (toLowerCase lower (trim qs)) (task_title t)
                \<and> selected pf (task_priority t) \<and> selected sf (task_status t)) ts"

definition filteredTasks_case_folded :: "(jstring \<Rightarrow> jstring) \<Rightarrow> Task list \<Rightarrow> jstring \<Rightarrow> jstring \<Rightarrow> jstring \<Rightarrow> Task list" where
  "filteredTasks_case_folded lower ts qs pf sf =
     filter (\<lambda>t. sublist (toLowerCase lower (trim qs)) (toLowerCase lower (task_title t))
                \<and> selected pf (task_priority t) \<and> selected sf (task_status t)) ts"

section \<open>A platform for concrete runs\<close>

text \<open>
  The theorems below hold for every platform. To run the model on concrete inputs, a
  platform is fixed here the way a unit test would mock it: the serialiser covers
  \<^verbatim>\<open>null\<close>, the booleans, strings of printable characters without quote or
  backslash, and flat objects of such strings (the bodies the resource client sends);
  the parser covers the three literal names and such string literals. Outside these
  fragments both throw. The exchange of \<open>serving\<close> answers every request with
  one fixed response; that of \<open>echo\<close> answers with a line that spells out the
  request it received. \<open>ascii_lower\<close> stands in for the case mapping, with which
  it agrees on ASCII strings.
\<close>

definition plain_char :: "char \<Rightarrow> bool" where
  "plain_char c = ((32::nat) \<le> of_char c \<and> of_char c < (127::nat) \<and> c \<noteq> CHR 0x22 \<and> c \<noteq> CHR 0x5C)"

definition quoted :: "string \<Rightarrow> string" where
  "quoted s = [CHR 0x22] @ s @ [CHR 0x22]"

fun demo_member :: "string \<times> jsval \<Rightarrow> string option" where
  "demo_member (k, JStr v) =
     (if list_all plain_char k \<and> list_all plain_char v then Some (quoted k @ '':'' @ quoted v) else None)"
| "demo_member (k, v) = None"

fun join_commas :: "string list \<Rightarrow> string" where
  "join_commas [] = []"
| "join_commas [x] = x"
| "join_commas (x # y # zs) = x @ '','' @ join_commas (y # zs)"

fun demo_stringify :: "jsval \<Rightarrow> exn + string" where
  "demo_stringify JNull = Inr ''null''"
| "demo_stringify (JBool b) = Inr (if b then ''true'' else ''false'')"
| "demo_stringify (JStr s) = (if list_all plain_char s then Inr (quoted s) else Inl (Error ''unsupported''))"
| "demo_stringify (JObj kvs) =
     (if list_all (\<lambda>kv. demo_member kv \<noteq> None) kvs
      then Inr (''{'' @ join_commas (map (\<lambda>kv. the (demo_member kv)) kvs) @ ''}'')
      else Inl (Error ''unsupported''))"
| "demo_stringify v = Inl (Error ''unsupported'')"

definition demo_parse :: "string \<Rightarrow> exn + jsval" where
  "demo_parse t =
     (if t = ''null'' then Inr JNull
      else if t = ''true'' then Inr (JBool True)
      else if t = ''false'' then Inr (JBool False)
      else if 2 \<le> length t \<and> hd t = CHR 0x22 \<and> last t = CHR 0x22 \<and> list_all plain_char (butlast (tl t))
      then Inr (JStr (butlast (tl t)))
      else Inl (Error ''SyntaxError''))"

definition serving :: "response \<Rightarrow> platform" where
  "serving res = \<lparr>JSON_stringify = demo_stringify, JSON_parse = demo_parse, fetch = (\<lambda>rq. Inr res)\<rparr>"

definition cache_name :: "RequestCache \<Rightarrow> string" where
  "cache_name c = (case c of
       CacheDefault \<Rightarrow> ''default'' | ForceCache \<Rightarrow> ''force-cache'' | NoCache \<Rightarrow> ''no-cache''
     | NoStore \<Rightarrow> ''no-store'' | OnlyIfCached \<Rightarrow> ''only-if-cached'' | Reload \<Rightarrow> ''reload'')"

definition describe :: "request \<Rightarrow> string" where
  "describe rq =
     method_name (req_method rq) @ '' '' @ req_url rq @ '' '' @ cache_name (req_cache rq) @ '' ''
       @ (case req_headers rq ''Content-Type'' of None \<Rightarrow> ''-'' | Some v \<Rightarrow> v) @ '' ''
       @ (case req_body rq of None \<Rightarrow> ''-'' | Some b \<Rightarrow> b)"

definition echo :: platform where
  "echo = \<lparr>JSON_stringify = demo_stringify, JSON_parse = demo_parse,
            fetch = (\<lambda>rq. Inr \<lparr>res_ok = True, res_status = 200, res_text = describe rq\<rparr>)\<rparr>"

definition ascii_lower :: "jstring \<Rightarrow> jstring" where
  "ascii_lower s = map (\<lambda>c. if 0x41 \<le> c \<and> c \<le> 0x5A then c + 0x20 else c) s"

text \<open>The responses, the tasks and the objects of the concrete runs.\<close>

definition not_found :: response where
  "not_found = \<lparr>res_ok = False, res_status = 404, res_text = ''Not Found''\<rparr>"

definition answers :: "string \<Rightarrow> response" where
  "answers t = \<lparr>res_ok = True, res_status = 200, res_text = t\<rparr>"

definition milk :: Task where
  "milk = \<lparr>task_id = ascii ''1'', task_title = ascii ''Buy Milk'', task_priority = ascii ''Low'',
            task_status = ascii ''open''\<rparr>"

definition bread :: Task where
  "bread = \<lparr>task_id = ascii ''2'', task_title = ascii ''Bake bread'', task_priority = ascii ''High'',
             task_status = ascii ''Resolved''\<rparr>"


definition odd_key :: Task where
  "odd_key = \<lparr>task_id = proto_key, task_title = ascii ''Odd'', task_priority = ascii ''Low'',
               task_status = ascii ''open''\<rparr>"

definition loaded :: "Task list \<Rightarrow> view_response" where
  "loaded data = \<lparr>vr_ok = True, vr_status = 200, vr_json = Inr data\<rparr>"

definition milk_fields :: "(string \<times> jsval) list" where
  "milk_fields = [(''id'', JStr ''1''), (''title'', JStr ''Buy Milk''), (''priority'', JStr ''Low''),
                  (''status'', JStr ''open'')]"

definition same_again :: "(string \<times> jsval) list" where
  "same_again = [(''priority'', JStr ''Low''), (''status'', JStr ''open'')]"

text \<open>The option objects of the concrete runs.\<close>

definition zero_body :: RequestOptions where
  "zero_body = \<lparr>method_opt = Some PUT, body = JNum (Finite 0), headers = None, cache = None\<rparr>"

definition zero_body_json :: RequestOptions where
  "zero_body_json = \<lparr>method_opt = Some PUT, body = JNum (Finite 0),
     headers = Some [''Content-Type'' \<mapsto> ''application/json''], cache = None\<rparr>"


section \<open>The request the executor issues\<close>

text \<open>
  \<open>fetch_init\<close> is the request \<^verbatim>\<open>http\<close> hands to \<^verbatim>\<open>fetch\<close>: the result of
  \<^verbatim>\<open>http\<close> is what \<open>http_outcome\<close> makes of the exchange for that request, and an
  exception of the serialiser ends the call before any exchange.
\<close>

lemma fetch_init_method:
  "fetch_init P url opts = Inr rq \<Longrightarrow> req_method rq = (case method_opt opts of None \<Rightarrow> GET | Some m \<Rightarrow> m)"
  by (auto simp: fetch_init_def Let_def split: if_splits sum.splits)

lemma fetch_init_cache:
  "fetch_init P url opts = Inr rq \<Longrightarrow> req_cache rq = (case cache opts of None \<Rightarrow> NoStore | Some c \<Rightarrow> c)"
  by (auto simp: fetch_init_def Let_def split: if_splits sum.splits)

lemma fetch_init_url:
  "fetch_init P url opts = Inr rq \<Longrightarrow> req_url rq = url"
  by (auto simp: fetch_init_def Let_def split: if_splits sum.splits)


lemma fetch_init_no_opts:
  "fetch_init P url no_opts =
     Inr \<lparr>req_url = url, req_method = GET, req_cache = NoStore, req_headers = Map.empty, req_body = None\<rparr>"
  by (simp add: fetch_init_def no_opts_def)

lemma serving_fetch: "fetch (serving r) rq = Inr r"
  by (simp add: serving_def)

lemma http_via_exchange:
  "fetch_init P url opts = Inr rq \<Longrightarrow> http P url opts = http_outcome P (req_method rq) url (fetch P rq)"
  by (simp add: http_def http_outcome_def split: sum.splits)

lemma http_no_exchange:
  "fetch_init P url opts = Inl e \<Longrightarrow> http P url opts = Inl (Rejected e)"
  by (simp add: http_def)

lemma fetch_init_object:
  "fetch_init P url \<lparr>method_opt = Some m, body = JObj kvs, headers = None, cache = None\<rparr> =
     (case JSON_stringify P (JObj kvs) of
        Inl e \<Rightarrow> Inl e
      | Inr s \<Rightarrow> Inr \<lparr>req_url = url, req_method = m, req_cache = NoStore,
                      req_headers = [''Content-Type'' \<mapsto> ''application/json''], req_body = Some s\<rparr>)"
  by (simp add: fetch_init_def split: sum.splits)

lemma http_object:
  "http P url \<lparr>method_opt = Some m, body = JObj kvs, headers = None, cache = None\<rparr> =
     (case JSON_stringify P (JObj kvs) of
        Inl e \<Rightarrow> Inl (Rejected e)
      | Inr s \<Rightarrow> http_outcome P m url
                   (fetch P \<lparr>req_url = url, req_method = m, req_cache = NoStore,
                              req_headers = [''Content-Type'' \<mapsto> ''application/json''],
                              req_body = Some s\<rparr>))"
proof (cases "JSON_stringify P (JObj kvs)")
  case (Inl e)
  then show ?thesis
    by (simp add: http_no_exchange fetch_init_object)
next
  case (Inr s)
  then have "fetch_init P url \<lparr>method_opt = Some m, body = JObj kvs, headers = None, cache = None\<rparr> =
      Inr \<lparr>req_url = url, req_method = m, req_cache = NoStore,
           req_headers = [''Content-Type'' \<mapsto> ''application/json''], req_body = Some s\<rparr>"
    by (simp add: fetch_init_object)
  from http_via_exchange [OF this] Inr show ?thesis by simp
qed

section \<open>Properties of the request executor\<close>

text \<open>
  C1. When the response of the exchange does not have \<^verbatim>\<open>ok\<close> set, \<^verbatim>\<open>http\<close>
  returns no value: it raises an \<^verbatim>\<open>ApiError\<close> whose \<open>status\<close> is the status of the
  response, whose \<open>bodyText\<close> is the text of the response as it came (whether or not it
  is JSON: the parser is not consulted), and whose message is
  \<^verbatim>\<open>HTTP <status> for <method> <url>\<close> with the resolved method. Conversely every
  \<^verbatim>\<open>ApiError\<close> that \<^verbatim>\<open>http\<close> raises comes from such a response: an exception of
  the serialiser or of the exchange passes through as it is.
\<close>

theorem http_non_success_raises_ApiError:
  "(fetch_init P url opts = Inr rq \<and> fetch P rq = Inr res \<and> \<not> res_ok res \<longrightarrow>
      http P url opts =
        Inl (ApiError (''HTTP '' @ show_nat (res_status res) @ '' for ''
                         @ method_name (case method_opt opts of None \<Rightarrow> GET | Some m \<Rightarrow> m) @ '' '' @ url)
               (res_status res) (res_text res)))
   \<and> (\<forall>m st b. http P url opts = Inl (ApiError m st b) \<longrightarrow>
         (\<exists>rq' res'. fetch_init P url opts = Inr rq' \<and> fetch P rq' = Inr res' \<and> \<not> res_ok res'
                      \<and> st = res_status res' \<and> b = res_text res'))"
proof (intro conjI impI allI)
  assume h: "fetch_init P url opts = Inr rq \<and> fetch P rq = Inr res \<and> \<not> res_ok res"
  then have "req_method rq = (case method_opt opts of None \<Rightarrow> GET | Some m \<Rightarrow> m)"
    by (blast dest: fetch_init_method)
  with h show "http P url opts =
        Inl (ApiError (''HTTP '' @ show_nat (res_status res) @ '' for ''
                         @ method_name (case method_opt opts of None \<Rightarrow> GET | Some m \<Rightarrow> m) @ '' '' @ url)
               (res_status res) (res_text res))"
    by (simp add: http_def)
next
  fix m st b
  assume "http P url opts = Inl (ApiError m st b)"
  then show "\<exists>rq' res'. fetch_init P url opts = Inr rq' \<and> fetch P rq' = Inr res' \<and> \<not> res_ok res'
                      \<and> st = res_status res' \<and> b = res_text res'"
    by (auto simp: http_def Let_def split: sum.splits if_splits)
qed

text \<open>
  A run: the server answers 404 with the text \<^verbatim>\<open>Not Found\<close> to a list request.
\<close>

theorem http_non_success_raises_ApiError_witness:
  "\<not> res_ok not_found \<and>
   http (serving not_found) BASE no_opts =
     Inl (ApiError ''HTTP 404 for GET http://localhost:3001/tasks'' 404 ''Not Found'')"
proof -
  let ?rq = "\<lparr>req_url = BASE, req_method = GET, req_cache = NoStore, req_headers = Map.empty,
               req_body = None\<rparr>"
  have h: "fetch_init (serving not_found) BASE no_opts = Inr ?rq
        \<and> fetch (serving not_found) ?rq = Inr not_found \<and> \<not> res_ok not_found"
    by (simp add: fetch_init_no_opts serving_fetch not_found_def)
  have n: "show_nat 404 = ''404''" by code_simp
  from http_non_success_raises_ApiError [of "serving not_found" BASE no_opts ?rq not_found] h
  show ?thesis by (simp add: n not_found_def no_opts_def BASE_def)
qed

text \<open>
  C2. When the response has \<^verbatim>\<open>ok\<close> set and its text is not empty and
  \<^verbatim>\<open>JSON.parse\<close> returns a value for it, \<^verbatim>\<open>http\<close> returns that value.
\<close>

theorem http_success_json:
  "fetch_init P url opts = Inr rq \<Longrightarrow> fetch P rq = Inr res \<Longrightarrow> res_ok res \<Longrightarrow> res_text res \<noteq> []
     \<Longrightarrow> JSON_parse P (res_text res) = Inr v \<Longrightarrow> http P url opts = Inr v"
  by (simp add: http_def)

text \<open>
  A run: the text \<^verbatim>\<open>true\<close> comes back as the boolean.
\<close>

theorem http_success_json_witness:
  "res_ok (answers ''true'') \<and> JSON_parse (serving (answers ''true'')) ''true'' = Inr (JBool True)
   \<and> http (serving (answers ''true'')) BASE no_opts = Inr (JBool True)"
proof -
  have p: "JSON_parse (serving (answers ''true'')) (res_text (answers ''true'')) = Inr (JBool True)"
    by (simp add: serving_def answers_def demo_parse_def)
  have "http (serving (answers ''true'')) BASE no_opts = Inr (JBool True)"
    by (rule http_success_json [OF fetch_init_no_opts serving_fetch _ _ p])
       (simp_all add: answers_def)
  with p show ?thesis by (simp add: answers_def)
qed

text \<open>
  C3. When the response has \<^verbatim>\<open>ok\<close> set and its text is not empty and
  \<^verbatim>\<open>JSON.parse\<close> throws on it, \<^verbatim>\<open>http\<close> raises nothing and returns the text
  itself, unchanged, as a string.
\<close>

theorem http_success_plain_text:
  "fetch_init P url opts = Inr rq \<Longrightarrow> fetch P rq = Inr res \<Longrightarrow> res_ok res \<Longrightarrow> res_text res \<noteq> []
     \<Longrightarrow> JSON_parse P (res_text res) = Inl e \<Longrightarrow> http P url opts = Inr (JStr (res_text res))"
  by (simp add: http_def)

text \<open>
  A run: the bare text \<^verbatim>\<open>ok\<close>, which is not JSON, comes back as the string
  \<^verbatim>\<open>ok\<close>.
\<close>

theorem http_success_plain_text_witness:
  "res_ok (answers ''ok'') \<and> JSON_parse (serving (answers ''ok'')) ''ok'' = Inl (Error ''SyntaxError'')
   \<and> http (serving (answers ''ok'')) BASE no_opts = Inr (JStr ''ok'')"
proof -
  have p: "JSON_parse (serving (answers ''ok'')) (res_text (answers ''ok'')) = Inl (Error ''SyntaxError'')"
    by (simp add: serving_def answers_def demo_parse_def)
  have "http (serving (answers ''ok'')) BASE no_opts = Inr (JStr (res_text (answers ''ok'')))"
    by (rule http_success_plain_text [OF fetch_init_no_opts serving_fetch _ _ p])
       (simp_all add: answers_def)
  with p show ?thesis by (simp add: answers_def)
qed

text \<open>
  C4. When the response has \<^verbatim>\<open>ok\<close> set and its text is empty, \<^verbatim>\<open>http\<close>
  returns \<^verbatim>\<open>undefined\<close> and raises nothing.
\<close>

theorem http_success_empty:
  "fetch_init P url opts = Inr rq \<Longrightarrow> fetch P rq = Inr res \<Longrightarrow> res_ok res \<Longrightarrow> res_text res = []
     \<Longrightarrow> http P url opts = Inr JUndefined"
  by (simp add: http_def)

text \<open>
  A run: removing task 1 from a server that answers with an empty body.
\<close>

theorem http_success_empty_witness:
  "res_ok (answers []) \<and> res_text (answers []) = [] \<and> TasksAPI_remove (serving (answers [])) ''1'' = Inr JUndefined"
proof -
  let ?o = "\<lparr>method_opt = Some DELETE, body = JUndefined, headers = None, cache = None\<rparr>"
  let ?rq = "\<lparr>req_url = BASE @ ''/'' @ ''1'', req_method = DELETE, req_cache = NoStore,
               req_headers = Map.empty, req_body = None\<rparr>"
  have i: "fetch_init (serving (answers [])) (BASE @ ''/'' @ ''1'') ?o = Inr ?rq"
    by (simp add: fetch_init_def)
  have "http (serving (answers [])) (BASE @ ''/'' @ ''1'') ?o = Inr JUndefined"
    by (rule http_success_empty [OF i serving_fetch]) (simp_all add: answers_def)
  then show ?thesis by (simp add: TasksAPI_remove_def answers_def)
qed




text \<open>
  C7. \<^verbatim>\<open>http\<close> performs the exchange for the request built from its arguments.
  In that request the method is \<^verbatim>\<open>GET\<close> when the options give none, and the caching
  directive is \<^verbatim>\<open>no-store\<close> when the options give none.
\<close>

theorem http_defaults:
  "fetch_init P url opts = Inr rq \<Longrightarrow>
     http P url opts = http_outcome P (req_method rq) url (fetch P rq)
     \<and> req_url rq = url
     \<and> (method_opt opts = None \<longrightarrow> req_method rq = GET)
     \<and> (cache opts = None \<longrightarrow> req_cache rq = NoStore)"
  by (auto simp: fetch_init_method fetch_init_cache fetch_init_url http_via_exchange)

text \<open>
  A run against the echoing server: a call without options.
\<close>

theorem http_defaults_witness:
  "method_opt no_opts = None \<and> cache no_opts = None
   \<and> http echo BASE no_opts = Inr (JStr ''GET http://localhost:3001/tasks no-store - -'')"
proof -
  let ?rq = "\<lparr>req_url = BASE, req_method = GET, req_cache = NoStore, req_headers = Map.empty,
               req_body = None\<rparr>"
  have p: "demo_parse ''GET http://localhost:3001/tasks no-store - -'' = Inl (Error ''SyntaxError'')"
    by code_simp
  from http_defaults [of echo BASE no_opts ?rq, OF fetch_init_no_opts]
  have "http echo BASE no_opts = http_outcome echo GET BASE (fetch echo ?rq)"
    by simp
  then have "http echo BASE no_opts = Inr (JStr ''GET http://localhost:3001/tasks no-store - -'')"
    by (simp add: http_outcome_def echo_def describe_def cache_name_def BASE_def p)
  then show ?thesis by (simp add: no_opts_def)
qed

text \<open>
  C9, with the caller's headers kept. When the body passed is falsy, the request is
  issued (the serialiser is not called), it carries no body, and its headers are the
  caller's headers and nothing else: \<^verbatim>\<open>http\<close> adds no content type of its own.
\<close>

theorem http_falsy_body:
  "\<not> truthy (body opts) \<Longrightarrow>
     fetch_init P url opts =
       Inr \<lparr>req_url = url, req_method = (case method_opt opts of None \<Rightarrow> GET | Some m \<Rightarrow> m),
            req_cache = (case cache opts of None \<Rightarrow> NoStore | Some c \<Rightarrow> c),
            req_headers = (case headers opts of None \<Rightarrow> Map.empty | Some h \<Rightarrow> h),
            req_body = None\<rparr>"
  by (auto simp: fetch_init_def Let_def split: option.splits)

text \<open>
  A run: the number 0 as body, no headers.
\<close>

theorem http_falsy_body_witness:
  "\<not> truthy (body zero_body)
   \<and> fetch_init (serving not_found) BASE zero_body =
       Inr \<lparr>req_url = BASE, req_method = PUT, req_cache = NoStore, req_headers = Map.empty,
            req_body = None\<rparr>"
proof -
  have t: "\<not> truthy (body zero_body)"
    by (simp add: zero_body_def)
  from http_falsy_body [OF t, of "serving not_found" BASE] t show ?thesis
    by (simp add: zero_body_def)
qed

text \<open>
  The request still carries a JSON content type when the caller supplies one with a
  falsy body.
\<close>

theorem http_falsy_body_counterexample:
  "\<not> truthy (body zero_body_json)
   \<and> fetch_init (serving not_found) BASE zero_body_json =
       Inr \<lparr>req_url = BASE, req_method = PUT, req_cache = NoStore,
            req_headers = [''Content-Type'' \<mapsto> ''application/json''], req_body = None\<rparr>"
  by (simp add: zero_body_json_def fetch_init_def)

section \<open>Properties of the resource client\<close>

text \<open>
  C6, with the body as it is passed. Each operation of the resource client is one
  exchange of \<^verbatim>\<open>http\<close> with a fixed method and path: \<open>list\<close> is a \<^verbatim>\<open>GET\<close> of
  the base path without body; \<open>create\<close> is a \<^verbatim>\<open>POST\<close> to the base path whose
  body is the serialisation of the payload object it is given; \<open>update\<close> is a
  \<^verbatim>\<open>PATCH\<close> to base path, slash, id, whose body is the serialisation of the updates
  object it is given, whatever fields that holds; \<open>remove\<close> is a \<^verbatim>\<open>DELETE\<close> of
  base path, slash, id, without body. Nothing is checked or changed on the way: when the
  serialiser throws, its exception is the result.
\<close>

theorem TasksAPI_pass_through:
  "TasksAPI_list P =
     http_outcome P GET BASE
       (fetch P \<lparr>req_url = BASE, req_method = GET, req_cache = NoStore, req_headers = Map.empty,
                  req_body = None\<rparr>)
   \<and> TasksAPI_create P (JObj payload) =
       (case JSON_stringify P (JObj payload) of
          Inl e \<Rightarrow> Inl (Rejected e)
        | Inr s \<Rightarrow> http_outcome P POST BASE
                     (fetch P \<lparr>req_url = BASE, req_method = POST, req_cache = NoStore,
                                req_headers = [''Content-Type'' \<mapsto> ''application/json''],
                                req_body = Some s\<rparr>))
   \<and> TasksAPI_update P i (JObj updates) =
       (case JSON_stringify P (JObj updates) of
          Inl e \<Rightarrow> Inl (Rejected e)
        | Inr s \<Rightarrow> http_outcome P PATCH (BASE @ ''/'' @ i)
                     (fetch P \<lparr>req_url = BASE @ ''/'' @ i, req_method = PATCH, req_cache = NoStore,
                                req_headers = [''Content-Type'' \<mapsto> ''application/json''],
                                req_body = Some s\<rparr>))
   \<and> TasksAPI_remove P i =
       http_outcome P DELETE (BASE @ ''/'' @ i)
         (fetch P \<lparr>req_url = BASE @ ''/'' @ i, req_method = DELETE, req_cache = NoStore,
                    req_headers = Map.empty, req_body = None\<rparr>)"
proof -
  have del: "fetch_init P (BASE @ ''/'' @ i)
         \<lparr>method_opt = Some DELETE, body = JUndefined, headers = None, cache = None\<rparr> =
       Inr \<lparr>req_url = BASE @ ''/'' @ i, req_method = DELETE, req_cache = NoStore,
            req_headers = Map.empty, req_body = None\<rparr>"
    by (simp add: fetch_init_def)
  have l: "TasksAPI_list P =
     http_outcome P GET BASE
       (fetch P \<lparr>req_url = BASE, req_method = GET, req_cache = NoStore, req_headers = Map.empty,
                  req_body = None\<rparr>)"
    unfolding TasksAPI_list_def using http_via_exchange [OF fetch_init_no_opts, of P BASE] by simp
  have c: "TasksAPI_create P (JObj payload) =
       (case JSON_stringify P (JObj payload) of
          Inl e \<Rightarrow> Inl (Rejected e)
        | Inr s \<Rightarrow> http_outcome P POST BASE
                     (fetch P \<lparr>req_url = BASE, req_method = POST, req_cache = NoStore,
                                req_headers = [''Content-Type'' \<mapsto> ''application/json''],
                                req_body = Some s\<rparr>))"
    unfolding TasksAPI_create_def by (rule http_object)
  have u: "TasksAPI_update P i (JObj updates) =
       (case JSON_stringify P (JObj updates) of
          Inl e \<Rightarrow> Inl (Rejected e)
        | Inr s \<Rightarrow> http_outcome P PATCH (BASE @ ''/'' @ i)
                     (fetch P \<lparr>req_url = BASE @ ''/'' @ i, req_method = PATCH, req_cache = NoStore,
                                req_headers = [''Content-Type'' \<mapsto> ''application/json''],
                                req_body = Some s\<rparr>))"
    unfolding TasksAPI_update_def by (rule http_object)
  have r: "TasksAPI_remove P i =
       http_outcome P DELETE (BASE @ ''/'' @ i)
         (fetch P \<lparr>req_url = BASE @ ''/'' @ i, req_method = DELETE, req_cache = NoStore,
                    req_headers = Map.empty, req_body = None\<rparr>)"
    unfolding TasksAPI_remove_def using http_via_exchange [OF del] by simp
  from l c u r show ?thesis by (intro conjI)
qed

text \<open>
  The client does not compare the updates with the task. For a task that is already
  \<^verbatim>\<open>Low\<close> and \<^verbatim>\<open>open\<close>, updates that name these two values have an empty
  changed subset, and still both fields reach the server.
\<close>

theorem TasksAPI_update_unchanged_counterexample:
  \<open>changed_subset milk_fields same_again = []
   \<and> TasksAPI_update echo ''1'' (JObj same_again)
       = Inr (JStr ''PATCH http://localhost:3001/tasks/1 no-store application/json {"priority":"Low","status":"open"}'')
   \<and> TasksAPI_update echo ''1'' (JObj (changed_subset milk_fields same_again))
       = Inr (JStr ''PATCH http://localhost:3001/tasks/1 no-store application/json {}'')\<close>
proof -
  have c: "changed_subset milk_fields same_again = []"
    by (simp add: changed_subset_def milk_fields_def same_again_def)
  have s1: \<open>JSON_stringify echo (JObj same_again) = Inr ''{"priority":"Low","status":"open"}''\<close>
    by (simp add: echo_def same_again_def plain_char_def quoted_def)
  have s2: "JSON_stringify echo (JObj []) = Inr ''{}''"
    by (simp add: echo_def)
  have p1: \<open>demo_parse ''PATCH http://localhost:3001/tasks/1 no-store application/json {"priority":"Low","status":"open"}'' = Inl (Error ''SyntaxError'')\<close>
    by code_simp
  have p2: "demo_parse ''PATCH http://localhost:3001/tasks/1 no-store application/json {}'' = Inl (Error ''SyntaxError'')"
    by code_simp
  have u1: \<open>TasksAPI_update echo ''1'' (JObj same_again)
       = Inr (JStr ''PATCH http://localhost:3001/tasks/1 no-store application/json {"priority":"Low","status":"open"}'')\<close>
    by (simp add: TasksAPI_update_def http_object s1 http_outcome_def)
       (simp add: echo_def describe_def cache_name_def BASE_def p1)
  have u2: "TasksAPI_update echo ''1'' (JObj [])
       = Inr (JStr ''PATCH http://localhost:3001/tasks/1 no-store application/json {}'')"
    by (simp add: TasksAPI_update_def http_object s2 http_outcome_def)
       (simp add: echo_def describe_def cache_name_def BASE_def p2)
  from c u1 u2 show ?thesis by simp
qed

section \<open>Properties of the view\<close>

lemma includes_str_sublist: "includes_str s qs \<longleftrightarrow> sublist qs s"
  by (induction s) (auto simp: sublist_Cons_right)

lemma trim_all_ws: "list_all is_ws qs \<Longrightarrow> trim qs = []"
proof -
  assume "list_all is_ws qs"
  then have d: "dropWhile is_ws qs = []"
    by (induction qs) auto
  show ?thesis unfolding trim_def d by simp
qed

lemma filter_pred_eq:
  "((if query \<noteq> [] then includes_str s query else True)
      \<and> (if pf = ascii ''All'' then True else p = pf) \<and> (if sf = ascii ''All'' then True else st = sf))
   = (sublist query s \<and> selected pf p \<and> selected sf st)"
  by (auto simp: includes_str_sublist selected_def)










lemma caught_keeps [simp]: "tasks (caught f e s) = tasks s" "drafts (caught f e s) = drafts s"
  by (simp_all add: caught_def showToast_def Let_def)

lemma showToast_keeps [simp]: "tasks (showToast ty m s) = tasks s" "drafts (showToast ty m s) = drafts s"
  by (simp_all add: showToast_def)















text \<open>
  The key \<^verbatim>\<open>__proto__\<close> is the other exception. Its draft is kept as the
  prototype of \<^verbatim>\<open>drafts\<close>, where \<^verbatim>\<open>drafts[t.id]\<close> still reads it; the spread
  in \<^verbatim>\<open>resetRow\<close> copies own properties only, so resetting another row loses it.
\<close>

lemma reset_loses_odd_key:
  "distinct (map task_id [odd_key, bread])
   \<and> mirrors (fetchTasks (Inr (loaded [odd_key, bread])) initial_view)
   \<and> \<not> mirrors (resetRow (task_id bread) (fetchTasks (Inr (loaded [odd_key, bread])) initial_view))"
  by code_simp

text \<open>
  C10, with the title lowered as well. \<^verbatim>\<open>filteredTasks\<close> is the list of the
  tasks, in the order of \<open>tasks\<close>, whose lowercased title contains the trimmed,
  lowercased query (the empty query is contained in every title) and whose priority and
  status pass the respective filter, which \<^verbatim>\<open>All\<close> switches off. It is a
  subsequence of \<open>tasks\<close>, and with a query of white space only and both filters at
  \<^verbatim>\<open>All\<close> it is \<open>tasks\<close>. This holds whatever the case mapping is.
\<close>

theorem filteredTasks_selects:
  "filteredTasks lower ts qs pf sf = filteredTasks_case_folded lower ts qs pf sf
   \<and> subseq (filteredTasks lower ts qs pf sf) ts
   \<and> (list_all is_ws qs \<longrightarrow> filteredTasks lower ts qs (ascii ''All'') (ascii ''All'') = ts)"
proof (intro conjI impI)
  show "filteredTasks lower ts qs pf sf = filteredTasks_case_folded lower ts qs pf sf"
    unfolding filteredTasks_def filteredTasks_case_folded_def Let_def filter_pred_eq ..
  show "subseq (filteredTasks lower ts qs pf sf) ts"
    by (simp add: filteredTasks_def Let_def)
  assume "list_all is_ws qs"
  then have "toLowerCase lower (trim qs) = []"
    by (simp add: trim_all_ws toLowerCase_def)
  then show "filteredTasks lower ts qs (ascii ''All'') (ascii ''All'') = ts"
    by (simp add: filteredTasks_def)
qed

text \<open>
  A run: a query of a space, a no-break space and a line separator keeps both tasks;
  the query \<^verbatim>\<open>MILK\<close> between spaces finds the task titled \<^verbatim>\<open>Buy Milk\<close>.
\<close>

theorem filteredTasks_selects_witness:
  "list_all is_ws [0x0020, 0x00A0, 0x2028]
   \<and> filteredTasks ascii_lower [milk, bread] [0x0020, 0x00A0, 0x2028] (ascii ''All'') (ascii ''All'')
       = [milk, bread]
   \<and> filteredTasks ascii_lower [milk, bread] (ascii '' MILK '') (ascii ''All'') (ascii ''All'') = [milk]
   \<and> filteredTasks_case_folded ascii_lower [milk, bread] (ascii '' MILK '') (ascii ''All'') (ascii ''All'')
       = [milk]"
proof -
  have w: "list_all is_ws [0x0020, 0x00A0, 0x2028]" by (simp add: is_ws_def)
  have c: "filteredTasks_case_folded ascii_lower [milk, bread] (ascii '' MILK '') (ascii ''All'') (ascii ''All'')
             = [milk]"
    by code_simp
  have 1: "filteredTasks ascii_lower [milk, bread] [0x0020, 0x00A0, 0x2028] (ascii ''All'') (ascii ''All'')
             = [milk, bread]"
    using filteredTasks_selects [of ascii_lower "[milk, bread]" "[0x0020, 0x00A0, 0x2028]"] w by blast
  have "filteredTasks ascii_lower [milk, bread] (ascii '' MILK '') (ascii ''All'') (ascii ''All'')
          = filteredTasks_case_folded ascii_lower [milk, bread] (ascii '' MILK '') (ascii ''All'') (ascii ''All'')"
    using filteredTasks_selects [of ascii_lower "[milk, bread]" "ascii '' MILK ''" "ascii ''All''" "ascii ''All''"]
    by blast
  then have 2: "filteredTasks ascii_lower [milk, bread] (ascii '' MILK '') (ascii ''All'') (ascii ''All'') = [milk]"
    by (simp only: c)
  from w 1 2 c show ?thesis by blast
qed

text \<open>
  The search ignores case: the query \<^verbatim>\<open>milk\<close> finds the title
  \<^verbatim>\<open>Buy Milk\<close>, which does not contain it letter for letter.
\<close>

theorem filteredTasks_case_counterexample:
  "filteredTasks ascii_lower [milk] (ascii ''milk'') (ascii ''All'') (ascii ''All'') = [milk]
   \<and> filteredTasks_as_claimed ascii_lower [milk] (ascii ''milk'') (ascii ''All'') (ascii ''All'') = []"
  by code_simp

end
